theory Spec2Isabelle
  imports Main
begin

section \<open>Line modes of the ranger file manager (\<^verbatim>\<open>ranger/core/linemode.py\<close>)\<close>

text \<open>
  A line mode renders one directory entry as a left-aligned title and a right-aligned
  information string. The module holds an abstract base class and eight subclasses.
  The embedding follows the Python text method by method: a class is a constructor of
  \<open>linemode\<close>, a method is a definition named \<open>Class_method\<close>, and the two
  dispatching functions \<open>filetitle\<close> and \<open>infostring\<close> select the method of
  the receiver's class. An exception is a value of \<open>exn\<close>; a method that may raise
  returns \<open>exn + string\<close>, with \<open>Inl\<close> for the exception.
\<close>

subsection \<open>Data\<close>

text \<open>
  The file object handed to a line mode. Only the attributes read by the module are
  kept. \<open>stat\<close> is \<open>None\<close> when the entry could not be examined. The
  attributes \<open>size\<close> and \<open>group\<close> of the source carry a suffix here, since
  both names are taken by constants of the logic.
\<close>

record stat_result =
  st_mtime :: int

record fsobject =
  relative_path :: string
  path :: string
  is_directory :: bool
  size_fobj :: int
  stat :: "stat_result option"
  get_permission_string :: string
  user :: string
  group_fobj :: string

text \<open>
  The metadata of an entry. An attribute that was never set reads as Python's
  \<open>None\<close>, which is \<open>None\<close> here; the values that are set are strings.
\<close>

record metadata =
  title :: "string option"
  year :: "string option"
  authors :: "string option"

text \<open>
  A \<open>datetime\<close> value of the standard library, down to the second. Months and days
  count from one.
\<close>

record datetime =
  dt_year :: nat
  dt_month :: nat
  dt_day :: nat
  dt_hour :: nat
  dt_minute :: nat
  dt_second :: nat

type_synonym date = "nat \<times> nat \<times> nat"

datatype exn =
    NotImplementedError
  | CalledProcessError int
  | OSError
  | UnknownModeError

text \<open>A finished child process: its exit status and what it wrote to standard output.\<close>

record completed =
  returncode :: int
  stdout :: string

text \<open>
  What the module takes from the host and never changes: the conversion of a timestamp
  to local time (\<open>datetime.fromtimestamp\<close>, fixed by the time zone rules), the
  abbreviated month and weekday names of the locale (months from one, weekdays from
  Monday as zero), and the byte-size formatter \<open>ranger.ext.human_readable\<close>,
  whose text is not part of this module.
\<close>

record platform =
  fromtimestamp :: "int \<Rightarrow> datetime"
  abmon :: "nat \<Rightarrow> string"
  abday :: "nat \<Rightarrow> string"
  human_readable :: "int \<Rightarrow> string"

text \<open>
  What may differ from one call to the next: the reading of the system clock, as a
  timestamp, and the behaviour of a command when it is spawned: either the spawning
  itself raises, or the process runs to its end.
\<close>

record world =
  clock :: int
  popen :: "string list \<Rightarrow> exn + completed"

datatype linemode =
    DefaultLinemode
  | TitleLinemode
  | PermissionsLinemode
  | FileInfoLinemode
  | MtimeLinemode
  | SizeMtimeLinemode
  | HumanMtimeLinemode
  | SizeHumanMtimeLinemode

subsection \<open>Strings and numbers of the Python runtime\<close>

text \<open>The decimal numeral of a natural number, as \<open>str\<close> and \<open>%d\<close> print it.\<close>

definition digit_char :: "nat \<Rightarrow> char" where
  "digit_char n = ''0123456789'' ! (n mod 10)"

fun dec :: "nat \<Rightarrow> string" where
  "dec n = (if n < 10 then [digit_char n] else dec (n div 10) @ [digit_char n])"

declare dec.simps [simp del]

text \<open>\<open>%11s\<close> and its kin: right-justify in a field of at least \<open>w\<close> characters.\<close>

definition rjust :: "nat \<Rightarrow> char \<Rightarrow> string \<Rightarrow> string" where
  "rjust w c s = replicate (w - length s) c @ s"

text \<open>A two-digit field filled with zeros, as \<open>%H\<close>, \<open>%M\<close>, \<open>%m\<close> and \<open>%d\<close> print.\<close>

definition pad2 :: "nat \<Rightarrow> string" where
  "pad2 n = rjust 2 (CHR ''0'') (dec n)"

text \<open>\<open>"%s %s" % (a, b)\<close>, \<open>"%s - %s" % (a, b)\<close> and \<open>"%s %11s" % (a, b)\<close>.\<close>

definition fmt_s_s :: "string \<Rightarrow> string \<Rightarrow> string" where
  "fmt_s_s a b = a @ '' '' @ b"

definition fmt_s_dash_s :: "string \<Rightarrow> string \<Rightarrow> string" where
  "fmt_s_dash_s a b = a @ '' - '' @ b"

definition fmt_s_11s :: "string \<Rightarrow> string \<Rightarrow> string" where
  "fmt_s_11s a b = a @ '' '' @ rjust 11 (CHR '' '') b"

text \<open>\<open>str(x)\<close> of a value that is a string or \<open>None\<close>.\<close>

definition str_of :: "string option \<Rightarrow> string" where
  "str_of v = (case v of None \<Rightarrow> ''None'' | Some s \<Rightarrow> s)"

text \<open>The truth value Python gives such a value in a condition.\<close>

definition truthy :: "string option \<Rightarrow> bool" where
  "truthy v = (case v of None \<Rightarrow> False | Some s \<Rightarrow> s \<noteq> [])"

text \<open>
  \<open>s.find(c)\<close> for a needle of one character: the index of its first occurrence, or
  \<open>-1\<close>. \<open>s[0:j]\<close>: a negative bound counts from the end.
\<close>

fun str_find :: "string \<Rightarrow> char \<Rightarrow> int" where
  "str_find [] c = - 1"
| "str_find (x # xs) c =
     (if x = c then 0
      else (let i = str_find xs c in if i < 0 then - 1 else i + 1))"

definition slice_to :: "string \<Rightarrow> int \<Rightarrow> string" where
  "slice_to s j =
     (if j < 0 then take (nat (int (length s) + j)) s else take (nat j) s)"

text \<open>\<open>s.strip()\<close>: drop the white space at both ends.\<close>

definition isspace :: "char \<Rightarrow> bool" where
  "isspace c \<longleftrightarrow> c \<in> set [CHR '' '', CHR 0x09, CHR 0x0A, CHR 0x0B, CHR 0x0C, CHR 0x0D]"

definition strip :: "string \<Rightarrow> string" where
  "strip s = rev (dropWhile isspace (rev (dropWhile isspace s)))"

subsection \<open>Dates of the standard library\<close>

text \<open>
  \<open>datetime.date()\<close> forgets the time of day. Subtracting two dates gives a
  \<open>timedelta\<close> whose \<open>days\<close> is the difference of the dates' ordinals; the
  ordinal of a date is its day number in the proleptic Gregorian calendar, 1 January of
  year 1 being day 1. The definitions are those of the library's \<open>_is_leap\<close>,
  \<open>_days_before_year\<close>, \<open>_days_in_month\<close>, \<open>_days_before_month\<close> and
  \<open>_ymd2ord\<close>.
\<close>

definition date_of :: "datetime \<Rightarrow> date" where
  "date_of dt = (dt_year dt, dt_month dt, dt_day dt)"

definition is_leap :: "nat \<Rightarrow> bool" where
  "is_leap y \<longleftrightarrow> y mod 4 = 0 \<and> (y mod 100 \<noteq> 0 \<or> y mod 400 = 0)"

definition days_before_year :: "nat \<Rightarrow> int" where
  "days_before_year y =
     (let z = int y - 1 in z * 365 + z div 4 - z div 100 + z div 400)"

definition DAYS_BEFORE_MONTH :: "int list" where
  "DAYS_BEFORE_MONTH = [- 1, 0, 31, 59, 90, 120, 151, 181, 212, 243, 273, 304, 334]"

definition DAYS_IN_MONTH :: "int list" where
  "DAYS_IN_MONTH = [- 1, 31, 28, 31, 30, 31, 30, 31, 31, 30, 31, 30, 31]"

definition days_in_month :: "nat \<Rightarrow> nat \<Rightarrow> int" where
  "days_in_month y m = (if m = 2 \<and> is_leap y then 29 else DAYS_IN_MONTH ! m)"

definition days_before_month :: "nat \<Rightarrow> nat \<Rightarrow> int" where
  "days_before_month y m =
     DAYS_BEFORE_MONTH ! m + (if m > 2 \<and> is_leap y then 1 else 0)"

fun toordinal :: "date \<Rightarrow> int" where
  "toordinal (y, m, d) = days_before_year y + days_before_month y m + int d"

text \<open>\<open>(a - b).days\<close> for two dates.\<close>

definition days_between :: "date \<Rightarrow> date \<Rightarrow> int" where
  "days_between a b = toordinal a - toordinal b"

text \<open>\<open>date.weekday()\<close>: Monday is 0, Sunday is 6.\<close>

definition weekday :: "date \<Rightarrow> nat" where
  "weekday d = nat ((toordinal d + 6) mod 7)"

text \<open>\<open>datetime.now()\<close>: the local time of the clock's reading.\<close>

definition datetime_now :: "platform \<Rightarrow> world \<Rightarrow> datetime" where
  "datetime_now p w = fromtimestamp p (clock w)"

text \<open>
  \<open>strftime\<close>, for the conversions the module asks for: \<open>%Y\<close> the year,
  \<open>%m\<close>, \<open>%d\<close>, \<open>%H\<close>, \<open>%M\<close> two digits filled with zeros, \<open>%b\<close> and
  \<open>%a\<close> the locale's abbreviated month and weekday, and the flag \<open>-\<close>, which
  switches the filling off. Every other character of the format is copied.
\<close>

definition field2 :: "bool \<Rightarrow> nat \<Rightarrow> string" where
  "field2 nopad n = (if nopad then dec n else pad2 n)"

definition conversion :: "platform \<Rightarrow> bool \<Rightarrow> char \<Rightarrow> datetime \<Rightarrow> string" where
  "conversion p nopad c dt =
     (if c = CHR ''Y'' then dec (dt_year dt)
      else if c = CHR ''m'' then field2 nopad (dt_month dt)
      else if c = CHR ''d'' then field2 nopad (dt_day dt)
      else if c = CHR ''H'' then field2 nopad (dt_hour dt)
      else if c = CHR ''M'' then field2 nopad (dt_minute dt)
      else if c = CHR ''b'' then abmon p (dt_month dt)
      else if c = CHR ''a'' then abday p (weekday (date_of dt))
      else if c = CHR ''%'' then ''%''
      else (if nopad then [CHR ''%'', CHR ''-'', c] else [CHR ''%'', c]))"

fun strftime :: "platform \<Rightarrow> datetime \<Rightarrow> string \<Rightarrow> string" where
  "strftime p dt [] = []"
| "strftime p dt (c # fs) =
     (if c = CHR ''%'' then
        (case fs of
           [] \<Rightarrow> [c]
         | d # gs \<Rightarrow>
             if d = CHR ''-'' then
               (case gs of
                  [] \<Rightarrow> [c, d]
                | e # hs \<Rightarrow> conversion p True e dt @ strftime p dt hs)
             else conversion p False d dt @ strftime p dt gs)
      else c # strftime p dt fs)"

subsection \<open>The helper that spawns a command\<close>

text \<open>
  Modelled from the spec: \<open>ranger.ext.spawn.check_output\<close>, whose text is not part
  of this module. The spec describes the call as one that runs the command, captures
  its standard output, and fails with the subprocess failure (Python's
  \<open>CalledProcessError\<close>) when the process exits with a non-zero status. A failure
  to spawn the command at all is passed on as it is.
\<close>

definition check_output :: "world \<Rightarrow> string list \<Rightarrow> exn + string" where
  "check_output w popenargs =
     (case popen w popenargs of
        Inl e \<Rightarrow> Inl e
      | Inr process \<Rightarrow>
          if returncode process \<noteq> 0 then Inl (CalledProcessError (returncode process))
          else Inr (stdout process))"

subsection \<open>The line modes\<close>

definition DEFAULT_LINEMODE :: string where
  "DEFAULT_LINEMODE = ''filename''"

fun name :: "linemode \<Rightarrow> string" where
  "name DefaultLinemode = ''filename''"
| "name TitleLinemode = ''metatitle''"
| "name PermissionsLinemode = ''permissions''"
| "name FileInfoLinemode = ''fileinfo''"
| "name MtimeLinemode = ''mtime''"
| "name SizeMtimeLinemode = ''sizemtime''"
| "name HumanMtimeLinemode = ''humanmtime''"
| "name SizeHumanMtimeLinemode = ''sizehumanmtime''"

fun uses_metadata :: "linemode \<Rightarrow> bool" where
  "uses_metadata TitleLinemode = True"
| "uses_metadata _ = False"

fun required_metadata :: "linemode \<Rightarrow> string list" where
  "required_metadata TitleLinemode = [''title'']"
| "required_metadata _ = []"

text \<open>\<open>LinemodeBase.infostring\<close>, inherited by every class that does not override it.\<close>

definition LinemodeBase_infostring :: "fsobject \<Rightarrow> metadata \<Rightarrow> exn + string" where
  "LinemodeBase_infostring fobj md = Inl NotImplementedError"

definition DefaultLinemode_filetitle :: "fsobject \<Rightarrow> metadata \<Rightarrow> string option" where
  "DefaultLinemode_filetitle fobj md = Some (relative_path fobj)"

text \<open>
  \<open>TitleLinemode.filetitle\<close> hands back \<open>metadata.title\<close> as it finds it, which
  is \<open>None\<close> when no title was set; hence the optional result of \<open>filetitle\<close>.
\<close>

definition TitleLinemode_filetitle :: "fsobject \<Rightarrow> metadata \<Rightarrow> string option" where
  "TitleLinemode_filetitle fobj md =
     (let name = title md in
      if truthy (year md) then Some (fmt_s_dash_s (str_of (year md)) (str_of name))
      else name)"

definition TitleLinemode_infostring :: "fsobject \<Rightarrow> metadata \<Rightarrow> exn + string" where
  "TitleLinemode_infostring fobj md =
     (case authors md of
        Some authorstring \<Rightarrow>
          if authorstring \<noteq> [] then
            (let authorstring =
                   (if CHR '','' \<in> set authorstring
                    then slice_to authorstring (str_find authorstring (CHR '',''))
                    else authorstring)
             in Inr authorstring)
          else Inr []
      | None \<Rightarrow> Inr [])"

definition PermissionsLinemode_filetitle :: "fsobject \<Rightarrow> metadata \<Rightarrow> string option" where
  "PermissionsLinemode_filetitle fobj md =
     Some (get_permission_string fobj @ '' '' @ user fobj @ '' '' @ group_fobj fobj
           @ '' '' @ relative_path fobj)"

definition PermissionsLinemode_infostring :: "fsobject \<Rightarrow> metadata \<Rightarrow> exn + string" where
  "PermissionsLinemode_infostring fobj md = Inr []"

definition FileInfoLinemode_filetitle :: "fsobject \<Rightarrow> metadata \<Rightarrow> string option" where
  "FileInfoLinemode_filetitle fobj md = Some (relative_path fobj)"

definition FileInfoLinemode_infostring :: "world \<Rightarrow> fsobject \<Rightarrow> metadata \<Rightarrow> exn + string" where
  "FileInfoLinemode_infostring w fobj md =
     (if \<not> is_directory fobj then
        (case check_output w [''file'', ''-Lb'', path fobj] of
           Inr out \<Rightarrow> Inr (strip out)
         | Inl (CalledProcessError rc) \<Rightarrow> Inr ''unknown''
         | Inl e \<Rightarrow> Inl e)
      else Inl NotImplementedError)"

definition MtimeLinemode_filetitle :: "fsobject \<Rightarrow> metadata \<Rightarrow> string option" where
  "MtimeLinemode_filetitle fobj md = Some (relative_path fobj)"

definition MtimeLinemode_infostring :: "platform \<Rightarrow> fsobject \<Rightarrow> metadata \<Rightarrow> exn + string" where
  "MtimeLinemode_infostring p fobj md =
     (case stat fobj of
        None \<Rightarrow> Inr ''?''
      | Some st \<Rightarrow> Inr (strftime p (fromtimestamp p (st_mtime st)) ''%Y-%m-%d %H:%M''))"

definition SizeMtimeLinemode_filetitle :: "fsobject \<Rightarrow> metadata \<Rightarrow> string option" where
  "SizeMtimeLinemode_filetitle fobj md = Some (relative_path fobj)"

definition SizeMtimeLinemode_infostring :: "platform \<Rightarrow> fsobject \<Rightarrow> metadata \<Rightarrow> exn + string" where
  "SizeMtimeLinemode_infostring p fobj md =
     (case stat fobj of
        None \<Rightarrow> Inr ''?''
      | Some st \<Rightarrow>
          Inr (fmt_s_s (human_readable p (size_fobj fobj))
                 (strftime p (fromtimestamp p (st_mtime st)) ''%Y-%m-%d %H:%M'')))"

definition HumanMtimeLinemode_filetitle :: "fsobject \<Rightarrow> metadata \<Rightarrow> string option" where
  "HumanMtimeLinemode_filetitle fobj md = Some (relative_path fobj)"

definition HumanMtimeLinemode_infostring ::
  "platform \<Rightarrow> world \<Rightarrow> fsobject \<Rightarrow> metadata \<Rightarrow> exn + string" where
  "HumanMtimeLinemode_infostring p w fobj md =
     (case stat fobj of
        None \<Rightarrow> Inr ''?''
      | Some st \<Rightarrow>
          (let file_date = fromtimestamp p (st_mtime st);
               time_diff = days_between (date_of (datetime_now p w)) (date_of file_date)
           in if time_diff > 364 then Inr (strftime p file_date ''%-d %b %Y'')
              else if time_diff > 6 then Inr (strftime p file_date ''%-d %b'')
              else if time_diff \<ge> 1 then Inr (strftime p file_date ''%a'')
              else Inr (strftime p file_date ''%H:%M'')))"

definition SizeHumanMtimeLinemode_filetitle :: "fsobject \<Rightarrow> metadata \<Rightarrow> string option" where
  "SizeHumanMtimeLinemode_filetitle fobj md = Some (relative_path fobj)"

definition SizeHumanMtimeLinemode_infostring ::
  "platform \<Rightarrow> world \<Rightarrow> fsobject \<Rightarrow> metadata \<Rightarrow> exn + string" where
  "SizeHumanMtimeLinemode_infostring p w fobj md =
     (case stat fobj of
        None \<Rightarrow> Inr ''?''
      | Some st \<Rightarrow>
          (let size = human_readable p (size_fobj fobj);
               file_date = fromtimestamp p (st_mtime st);
               time_diff = days_between (date_of (datetime_now p w)) (date_of file_date)
           in if time_diff > 364 then Inr (fmt_s_11s size (strftime p file_date ''%-d %b %Y''))
              else if time_diff > 6 then Inr (fmt_s_11s size (strftime p file_date ''%-d %b''))
              else if time_diff \<ge> 1 then Inr (fmt_s_11s size (strftime p file_date ''%a''))
              else Inr (fmt_s_11s size (strftime p file_date ''%H:%M''))))"

text \<open>Method dispatch on the class of the receiver.\<close>

fun filetitle :: "linemode \<Rightarrow> fsobject \<Rightarrow> metadata \<Rightarrow> string option" where
  "filetitle DefaultLinemode = DefaultLinemode_filetitle"
| "filetitle TitleLinemode = TitleLinemode_filetitle"
| "filetitle PermissionsLinemode = PermissionsLinemode_filetitle"
| "filetitle FileInfoLinemode = FileInfoLinemode_filetitle"
| "filetitle MtimeLinemode = MtimeLinemode_filetitle"
| "filetitle SizeMtimeLinemode = SizeMtimeLinemode_filetitle"
| "filetitle HumanMtimeLinemode = HumanMtimeLinemode_filetitle"
| "filetitle SizeHumanMtimeLinemode = SizeHumanMtimeLinemode_filetitle"

fun infostring ::
  "linemode \<Rightarrow> platform \<Rightarrow> world \<Rightarrow> fsobject \<Rightarrow> metadata \<Rightarrow> exn + string" where
  "infostring DefaultLinemode p w = LinemodeBase_infostring"
| "infostring TitleLinemode p w = TitleLinemode_infostring"
| "infostring PermissionsLinemode p w = PermissionsLinemode_infostring"
| "infostring FileInfoLinemode p w = FileInfoLinemode_infostring w"
| "infostring MtimeLinemode p w = MtimeLinemode_infostring p"
| "infostring SizeMtimeLinemode p w = SizeMtimeLinemode_infostring p"
| "infostring HumanMtimeLinemode p w = HumanMtimeLinemode_infostring p w"
| "infostring SizeHumanMtimeLinemode p w = SizeHumanMtimeLinemode_infostring p w"

subsection \<open>The registry\<close>

text \<open>
  Modelled from the spec: the registry of line modes, which lives outside this module.
  The spec gives its contract: \<open>register\<close> adds a strategy keyed by its name,
  \<open>lookup\<close> returns the registered strategy or fails with \<open>UnknownModeError\<close>,
  \<open>default_name\<close> returns the constant default mode identifier, and the registry is
  populated once, at startup, with the eight strategies. The module itself supplies
  the names and the constant \<open>DEFAULT_LINEMODE\<close>.
\<close>

type_synonym registry = "string \<Rightarrow> linemode option"

text \<open>Modelled from the spec: \<open>register(strategy)\<close> adds a strategy keyed by its name.\<close>

definition register :: "registry \<Rightarrow> linemode \<Rightarrow> registry" where
  "register r s = r(name s \<mapsto> s)"

text \<open>
  Modelled from the spec: \<open>lookup(name)\<close> returns the registered strategy or fails
  with \<open>UnknownModeError\<close> if absent.
\<close>

definition lookup :: "registry \<Rightarrow> string \<Rightarrow> exn + linemode" where
  "lookup r n = (case r n of None \<Rightarrow> Inl UnknownModeError | Some s \<Rightarrow> Inr s)"

text \<open>
  Modelled from the spec: \<open>default_name()\<close> returns the constant default mode
  identifier, which the module names \<open>DEFAULT_LINEMODE\<close>.
\<close>

definition default_name :: string where
  "default_name = DEFAULT_LINEMODE"

text \<open>
  Modelled from the spec: the registry is populated once, at startup, with the eight
  variants of the strategy.
\<close>

definition linemodes :: "linemode list" where
  "linemodes =
     [DefaultLinemode, TitleLinemode, PermissionsLinemode, FileInfoLinemode,
      MtimeLinemode, SizeMtimeLinemode, HumanMtimeLinemode, SizeHumanMtimeLinemode]"

definition startup_registry :: registry where
  "startup_registry = foldl register Map.empty linemodes"

subsection \<open>Two hosts and some entries, for the examples\<close>

text \<open>
  A host on UTC: \<open>fromtimestamp\<close> splits the timestamp into days since the epoch
  (ordinal 719163 is 1 January 1970) and seconds of the day, and turns the ordinal
  into a date as the library's \<open>_ord2ymd\<close> does.
\<close>

definition ord2ymd :: "int \<Rightarrow> date" where
  "ord2ymd ordinal =
     (let n = ordinal - 1;
          n400 = n div 146097; n = n mod 146097;
          n100 = n div 36524; n = n mod 36524;
          n4 = n div 1461; n = n mod 1461;
          n1 = n div 365; n = n mod 365;
          year = n400 * 400 + 1 + n100 * 100 + n4 * 4 + n1
      in if n1 = 4 \<or> n100 = 4 then (nat (year - 1), 12, 31)
         else
           (let leapyear = (n1 = 3 \<and> (n4 \<noteq> 24 \<or> n100 = 3));
                month = nat ((n + 50) div 32);
                preceding =
                  DAYS_BEFORE_MONTH ! month + (if month > 2 \<and> leapyear then 1 else 0);
                back = (preceding > n);
                month = (if back then month - 1 else month);
                preceding =
                  (if back
                   then preceding
                        - (DAYS_IN_MONTH ! month + (if month = 2 \<and> leapyear then 1 else 0))
                   else preceding)
            in (nat year, month, nat (n - preceding + 1))))"

definition utc_fromtimestamp :: "int \<Rightarrow> datetime" where
  "utc_fromtimestamp t =
     (case ord2ymd (t div 86400 + 719163) of
        (y, m, d) \<Rightarrow>
          \<lparr>dt_year = y, dt_month = m, dt_day = d,
           dt_hour = nat (t mod 86400 div 3600),
           dt_minute = nat (t mod 3600 div 60),
           dt_second = nat (t mod 60)\<rparr>)"

text \<open>The names of the C locale, and those of a French one, its accents left out.\<close>

definition abmon_C :: "nat \<Rightarrow> string" where
  "abmon_C m =
     [''?'', ''Jan'', ''Feb'', ''Mar'', ''Apr'', ''May'', ''Jun'',
      ''Jul'', ''Aug'', ''Sep'', ''Oct'', ''Nov'', ''Dec''] ! m"

definition abday_C :: "nat \<Rightarrow> string" where
  "abday_C d = [''Mon'', ''Tue'', ''Wed'', ''Thu'', ''Fri'', ''Sat'', ''Sun''] ! d"



text \<open>A stand-in for the size formatter: the byte count followed by \<open>B\<close>.\<close>

definition bytes_B :: "int \<Rightarrow> string" where
  "bytes_B n = (if n \<le> 0 then ''0'' else dec (nat n) @ '' B'')"

definition host_C :: platform where
  "host_C = \<lparr>fromtimestamp = utc_fromtimestamp, abmon = abmon_C, abday = abday_C,
             human_readable = bytes_B\<rparr>"


text \<open>
  The clock at noon of Sunday 10 March 2024 (UTC), and a world in which the command
  \<open>file\<close> answers every path with the same process.
\<close>

definition noon_2024_03_10 :: int where
  "noon_2024_03_10 = 1710072000"

definition world_at :: "int \<Rightarrow> (exn + completed) \<Rightarrow> world" where
  "world_at t r = \<lparr>clock = t, popen = (\<lambda>args. r)\<rparr>"

definition ascii_text :: "exn + completed" where
  "ascii_text = Inr \<lparr>returncode = 0, stdout = ''ASCII text'' @ [CHR 0x0A]\<rparr>"

text \<open>A regular file last modified the given number of seconds before that noon.\<close>

definition file_aged :: "int \<Rightarrow> fsobject" where
  "file_aged secs =
     \<lparr>relative_path = ''notes.txt'', path = ''/home/u/notes.txt'', is_directory = False,
      size_fobj = 512, stat = Some \<lparr>st_mtime = noon_2024_03_10 - secs\<rparr>,
      get_permission_string = ''-rw-r--r--'', user = ''u'', group_fobj = ''users''\<rparr>"

definition no_metadata :: metadata where
  "no_metadata = \<lparr>title = None, year = None, authors = None\<rparr>"

text \<open>The metadata of a film, with the year and the authors left open.\<close>

definition inception :: "string option \<Rightarrow> string option \<Rightarrow> metadata" where
  "inception y a = \<lparr>title = Some ''Inception'', year = y, authors = a\<rparr>"

section \<open>Properties\<close>

subsection \<open>Auxiliary facts\<close>






lemma length_rjust: "length (rjust w c s) = max w (length s)"
  by (simp add: rjust_def)

text \<open>What \<open>strftime\<close> makes of the five formats of the module.\<close>

lemma strftime_day_month_year:
  "strftime p dt ''%-d %b %Y'' =
     dec (dt_day dt) @ '' '' @ abmon p (dt_month dt) @ '' '' @ dec (dt_year dt)"
  by (simp add: conversion_def field2_def)

lemma strftime_day_month:
  "strftime p dt ''%-d %b'' = dec (dt_day dt) @ '' '' @ abmon p (dt_month dt)"
  by (simp add: conversion_def field2_def)

lemma strftime_weekday: "strftime p dt ''%a'' = abday p (weekday (date_of dt))"
  by (simp add: conversion_def)

lemma strftime_hour_minute:
  "strftime p dt ''%H:%M'' = pad2 (dt_hour dt) @ '':'' @ pad2 (dt_minute dt)"
  by (simp add: conversion_def field2_def)



text \<open>
  The day number counts calendar days: it grows by one from a day to the next, within
  a month, from the last day of a month to the first of the next, and from 31 December
  to 1 January.
\<close>

lemma toordinal_next_day: "toordinal (y, m, Suc d) = toordinal (y, m, d) + 1"
  by simp

lemma toordinal_next_month:
  assumes "1 \<le> m" and "m < 12"
  shows "toordinal (y, Suc m, 1) = toordinal (y, m, nat (days_in_month y m)) + 1"
proof -
  from assms
  have "m = 1 \<or> m = 2 \<or> m = 3 \<or> m = 4 \<or> m = 5 \<or> m = 6 \<or> m = 7 \<or> m = 8
        \<or> m = 9 \<or> m = 10 \<or> m = 11"
    by arith
  then show ?thesis
    by (elim disjE)
      (simp_all add: days_before_month_def days_in_month_def DAYS_BEFORE_MONTH_def
        DAYS_IN_MONTH_def)
qed

lemma days_before_year_Suc:
  "days_before_year (Suc k) = int k * 365 + int (k div 4) - int (k div 100) + int (k div 400)"
  by (simp add: days_before_year_def Let_def zdiv_int)

lemma days_before_next_year:
  assumes "1 \<le> y"
  shows "days_before_year (Suc y) = days_before_year y + (if is_leap y then 366 else 365)"
proof -
  from assms obtain k where y: "y = Suc k"
    by (cases y) auto
  have a: "Suc k mod 100 = 0 \<Longrightarrow> Suc k mod 4 = 0"
    using mod_mod_cancel [of 4 100 "Suc k"] by simp
  have b: "Suc k mod 400 = 0 \<Longrightarrow> Suc k mod 100 = 0"
    using mod_mod_cancel [of 100 400 "Suc k"] by simp
  show ?thesis
    unfolding y days_before_year_Suc is_leap_def
    using a b by (auto simp: div_Suc simp del: of_nat_div)
qed

lemma toordinal_next_year:
  assumes "1 \<le> y"
  shows "toordinal (Suc y, 1, 1) = toordinal (y, 12, 31) + 1"
  using days_before_next_year [OF assms]
  by (simp add: days_before_month_def DAYS_BEFORE_MONTH_def)

text \<open>The time of day plays no part in the date.\<close>

lemma date_of_time:
  "date_of (dt\<lparr>dt_hour := h, dt_minute := mi, dt_second := se\<rparr>) = date_of dt"
  by (simp add: date_of_def)

text \<open>The width of the numerals.\<close>

lemma length_dec: "0 < k \<Longrightarrow> n < 10 ^ k \<Longrightarrow> length (dec n) \<le> k"
proof (induction k arbitrary: n)
  case 0
  then show ?case by simp
next
  case (Suc k)
  show ?case
  proof (cases "n < 10")
    case True
    then show ?thesis by (simp add: dec.simps)
  next
    case False
    with Suc.prems have k: "0 < k" by (cases k) auto
    from Suc.prems have "n div 10 < 10 ^ k"
      by (simp add: less_mult_imp_div_less mult.commute)
    with Suc.IH k have "length (dec (n div 10)) \<le> k" by simp
    with False show ?thesis by (subst dec.simps) simp
  qed
qed

lemma dec_not_empty: "dec n \<noteq> []"
  by (subst dec.simps) simp

lemma pad2_digits:
  assumes "n < 100"
  shows "pad2 n = [digit_char (n div 10), digit_char n]"
proof (cases "n < 10")
  case True
  then have "dec n = [digit_char n]"
    by (subst dec.simps) simp
  with True show ?thesis
    by (simp add: pad2_def rjust_def digit_char_def)
next
  case False
  with assms have "n div 10 < 10" by simp
  then have "dec (n div 10) = [digit_char (n div 10)]"
    by (subst dec.simps) simp
  with False have "dec n = [digit_char (n div 10), digit_char n]"
    by (subst dec.simps) simp
  then show ?thesis
    by (simp add: pad2_def rjust_def)
qed

lemma length_pad2: "n < 100 \<Longrightarrow> length (pad2 n) = 2"
  by (simp add: pad2_digits)

text \<open>Cutting a string at the first occurrence of a character.\<close>

lemma str_find_takeWhile:
  "c \<in> set s \<Longrightarrow> str_find s c = int (length (takeWhile (\<lambda>x. x \<noteq> c) s))"
  by (induction s) (auto simp: Let_def)

lemma slice_to_find:
  assumes "c \<in> set s"
  shows "slice_to s (str_find s c) = takeWhile (\<lambda>x. x \<noteq> c) s"
proof -
  have "slice_to s (str_find s c) = take (length (takeWhile (\<lambda>x. x \<noteq> c) s)) s"
    using assms by (simp add: str_find_takeWhile slice_to_def)
  also have "\<dots> = takeWhile (\<lambda>x. x \<noteq> c) s"
    by (rule takeWhile_eq_take [symmetric])
  finally show ?thesis .
qed

lemma split_at_first:
  assumes "c \<in> set s"
  shows "\<exists>rest. s = takeWhile (\<lambda>x. x \<noteq> c) s @ c # rest"
proof -
  have "dropWhile (\<lambda>x. x \<noteq> c) s \<noteq> []"
    using assms by (simp add: dropWhile_eq_Nil_conv)
  then obtain y ys where d: "dropWhile (\<lambda>x. x \<noteq> c) s = y # ys"
    by (cases "dropWhile (\<lambda>x. x \<noteq> c) s") auto
  then have "y = c"
    by (simp add: dropWhile_eq_Cons_conv)
  with d have "s = takeWhile (\<lambda>x. x \<noteq> c) s @ c # ys"
    by (metis takeWhile_dropWhile_id)
  then show ?thesis ..
qed

subsection \<open>The default line mode\<close>

text \<open>
  Claim C9. The default line mode, registered under the name \<open>filename\<close>, gives the
  entry's relative path, unchanged, as the title of every entry, whatever the
  metadata; its information string raises \<open>NotImplementedError\<close> on every input, on
  every host and in every world, so that the caller always renders its own fallback.
\<close>

theorem DefaultLinemode_contract:
  "name DefaultLinemode = ''filename''
   \<and> filetitle DefaultLinemode fobj md = Some (relative_path fobj)
   \<and> infostring DefaultLinemode p w fobj md = Inl NotImplementedError"
  by (simp add: DefaultLinemode_filetitle_def LinemodeBase_infostring_def)

subsection \<open>The metadata line mode\<close>

text \<open>
  Claim C7. When the metadata has a title, the title line mode gives the year, the
  separator \<open>" - "\<close> and the title if the year is set and not empty, and the title
  alone if the year is missing or empty.
\<close>

theorem TitleLinemode_filetitle_year:
  assumes "title md = Some t"
  shows "filetitle TitleLinemode fobj md =
           Some (case year md of
                   None \<Rightarrow> t
                 | Some y \<Rightarrow> if y = [] then t else y @ '' - '' @ t)"
  using assms
  by (simp add: TitleLinemode_filetitle_def truthy_def str_of_def fmt_s_dash_s_def
      split: option.splits)

theorem TitleLinemode_filetitle_year_witness:
  "title (inception (Some ''2010'') None) = Some ''Inception''
   \<and> filetitle TitleLinemode (file_aged 0) (inception (Some ''2010'') None)
       = Some ''2010 - Inception''
   \<and> title (inception None None) = Some ''Inception''
   \<and> filetitle TitleLinemode (file_aged 0) (inception None None) = Some ''Inception''
   \<and> filetitle TitleLinemode (file_aged 0) (inception (Some []) None) = Some ''Inception''"
  using TitleLinemode_filetitle_year [of "inception (Some ''2010'') None" "''Inception''" "file_aged 0"]
    TitleLinemode_filetitle_year [of "inception None None" "''Inception''" "file_aged 0"]
    TitleLinemode_filetitle_year [of "inception (Some []) None" "''Inception''" "file_aged 0"]
  by (simp add: inception_def)

text \<open>
  Claim C8. The information string of the title line mode is always a string, never
  the signal \<open>NotImplementedError\<close>: with authors that contain a comma it is the part
  of the authors before the first comma (the authors are that part, the comma and a
  rest, and the part has no comma); with authors without a comma it is the authors as
  they are; without authors it is the empty string.
\<close>

theorem TitleLinemode_infostring_first_author:
  "(\<forall>a. authors md = Some a \<and> CHR '','' \<in> set a \<longrightarrow>
      (\<exists>first rest. infostring TitleLinemode p w fobj md = Inr first
         \<and> a = first @ CHR '','' # rest \<and> CHR '','' \<notin> set first))
   \<and> (\<forall>a. authors md = Some a \<and> CHR '','' \<notin> set a \<longrightarrow>
        infostring TitleLinemode p w fobj md = Inr a)
   \<and> (authors md = None \<longrightarrow> infostring TitleLinemode p w fobj md = Inr [])
   \<and> infostring TitleLinemode p w fobj md \<noteq> Inl NotImplementedError"
proof (intro conjI allI impI)
  fix a
  assume h: "authors md = Some a \<and> CHR '','' \<in> set a"
  then have ne: "a \<noteq> []" by auto
  let ?first = "takeWhile (\<lambda>x. x \<noteq> CHR '','') a"
  from h have "\<exists>rest. a = ?first @ CHR '','' # rest"
    by (simp add: split_at_first)
  then obtain rest where r: "a = ?first @ CHR '','' # rest" ..
  have i: "infostring TitleLinemode p w fobj md = Inr ?first"
    using h ne by (simp add: TitleLinemode_infostring_def slice_to_find)
  have n: "CHR '','' \<notin> set ?first"
    by (auto dest: set_takeWhileD)
  show "\<exists>first rest. infostring TitleLinemode p w fobj md = Inr first
         \<and> a = first @ CHR '','' # rest \<and> CHR '','' \<notin> set first"
    using i r n by (intro exI conjI)
next
  fix a
  assume "authors md = Some a \<and> CHR '','' \<notin> set a"
  then show "infostring TitleLinemode p w fobj md = Inr a"
    by (simp add: TitleLinemode_infostring_def)
next
  assume "authors md = None"
  then show "infostring TitleLinemode p w fobj md = Inr []"
    by (simp add: TitleLinemode_infostring_def)
next
  show "infostring TitleLinemode p w fobj md \<noteq> Inl NotImplementedError"
    by (simp add: TitleLinemode_infostring_def Let_def split: option.splits)
qed

theorem TitleLinemode_infostring_first_author_witness:
  "authors (inception None (Some ''Nolan, Various'')) = Some ''Nolan, Various''
   \<and> CHR '','' \<in> set ''Nolan, Various''
   \<and> infostring TitleLinemode host_C (world_at 0 ascii_text) (file_aged 0)
        (inception None (Some ''Nolan, Various'')) = Inr ''Nolan''
   \<and> authors (inception None (Some ''Nolan'')) = Some ''Nolan''
   \<and> CHR '','' \<notin> set ''Nolan''
   \<and> infostring TitleLinemode host_C (world_at 0 ascii_text) (file_aged 0)
        (inception None (Some ''Nolan'')) = Inr ''Nolan''
   \<and> authors (inception None None) = None
   \<and> infostring TitleLinemode host_C (world_at 0 ascii_text) (file_aged 0)
        (inception None None) = Inr []"
  using
    TitleLinemode_infostring_first_author
      [of "inception None (Some ''Nolan, Various'')" host_C "world_at 0 ascii_text" "file_aged 0"]
    TitleLinemode_infostring_first_author
      [of "inception None (Some ''Nolan'')" host_C "world_at 0 ascii_text" "file_aged 0"]
    TitleLinemode_infostring_first_author
      [of "inception None None" host_C "world_at 0 ascii_text" "file_aged 0"]
  by (simp add: inception_def TitleLinemode_infostring_def slice_to_def)

subsection \<open>The line modes that show the modification time\<close>








text \<open>
  Where the claim holds as it was stated: with the names of the C locale, which have
  three characters each, a day and a time of two digits at most and a year of four, no
  date is longer than 11 characters, and the last segment is exactly 11 wide.
\<close>

lemma length_abmon_C:
  assumes "1 \<le> m" and "m \<le> 12"
  shows "length (abmon_C m) = 3"
proof -
  from assms
  have "m = 1 \<or> m = 2 \<or> m = 3 \<or> m = 4 \<or> m = 5 \<or> m = 6 \<or> m = 7 \<or> m = 8
        \<or> m = 9 \<or> m = 10 \<or> m = 11 \<or> m = 12"
    by arith
  then show ?thesis
    by (elim disjE) (simp_all add: abmon_C_def)
qed

lemma weekday_less_7: "weekday d < 7"
  by (simp add: weekday_def nat_less_iff)

lemma length_abday_C:
  assumes "d < 7"
  shows "length (abday_C d) = 3"
proof -
  from assms
  have "d = 0 \<or> d = 1 \<or> d = 2 \<or> d = 3 \<or> d = 4 \<or> d = 5 \<or> d = 6"
    by arith
  then show ?thesis
    by (elim disjE) (simp_all add: abday_C_def)
qed

lemma date_fits_in_C_locale:
  assumes "abmon p = abmon_C" and "abday p = abday_C"
    and "1 \<le> dt_month dt" and "dt_month dt \<le> 12" and "dt_day dt < 100"
    and "dt_year dt < 10000" and "dt_hour dt < 100" and "dt_minute dt < 100"
  shows "length (strftime p dt ''%-d %b %Y'') \<le> 11"
    and "length (strftime p dt ''%-d %b'') \<le> 11"
    and "length (strftime p dt ''%a'') \<le> 11"
    and "length (strftime p dt ''%H:%M'') \<le> 11"
proof -
  have d: "length (dec (dt_day dt)) \<le> 2"
    using assms(5) length_dec [of 2 "dt_day dt"] by simp
  have y: "length (dec (dt_year dt)) \<le> 4"
    using assms(6) length_dec [of 4 "dt_year dt"] by simp
  have m: "length (abmon p (dt_month dt)) = 3"
    using assms(1,3,4) by (simp add: length_abmon_C)
  have a: "length (abday p (weekday (date_of dt))) = 3"
    using assms(2) by (simp add: length_abday_C weekday_less_7)
  show "length (strftime p dt ''%-d %b %Y'') \<le> 11"
    using d y m by (simp add: strftime_day_month_year del: strftime.simps)
  show "length (strftime p dt ''%-d %b'') \<le> 11"
    using d m by (simp add: strftime_day_month del: strftime.simps)
  show "length (strftime p dt ''%a'') \<le> 11"
    using a by (simp add: strftime_weekday del: strftime.simps)
  show "length (strftime p dt ''%H:%M'') \<le> 11"
    using assms(7,8) by (simp add: strftime_hour_minute length_pad2 del: strftime.simps)
qed

lemma SizeHumanMtimeLinemode_C_locale:
  assumes "stat fobj = Some st"
    and "abmon p = abmon_C" and "abday p = abday_C"
    and "1 \<le> dt_month (fromtimestamp p (st_mtime st))"
    and "dt_month (fromtimestamp p (st_mtime st)) \<le> 12"
    and "dt_day (fromtimestamp p (st_mtime st)) < 100"
    and "dt_year (fromtimestamp p (st_mtime st)) < 10000"
    and "dt_hour (fromtimestamp p (st_mtime st)) < 100"
    and "dt_minute (fromtimestamp p (st_mtime st)) < 100"
  shows "\<exists>segment. infostring SizeHumanMtimeLinemode p w fobj md
           = Inr (human_readable p (size_fobj fobj) @ '' '' @ segment)
         \<and> length segment = 11"
proof -
  define file_date where "file_date = fromtimestamp p (st_mtime st)"
  define time_diff
    where "time_diff = days_between (date_of (datetime_now p w)) (date_of file_date)"
  define fmt where "fmt =
    (if time_diff > 364 then ''%-d %b %Y'' else if time_diff > 6 then ''%-d %b''
     else if time_diff \<ge> 1 then ''%a'' else ''%H:%M'')"
  have s: "infostring SizeHumanMtimeLinemode p w fobj md
         = Inr (human_readable p (size_fobj fobj) @ '' ''
                @ rjust 11 (CHR '' '') (strftime p file_date fmt))"
    using assms(1)
    by (simp add: SizeHumanMtimeLinemode_infostring_def Let_def file_date_def time_diff_def
        fmt_def fmt_s_11s_def del: strftime.simps)
  have "length (strftime p file_date fmt) \<le> 11"
    unfolding fmt_def file_date_def
    using date_fits_in_C_locale [OF assms(2-9)] by (simp del: strftime.simps)
  then have "length (rjust 11 (CHR '' '') (strftime p file_date fmt)) = 11"
    by (simp add: length_rjust)
  with s show ?thesis
    by (intro exI conjI)
qed

subsection \<open>What a result depends on\<close>




subsection \<open>The file-info line mode\<close>

text \<open>
  What \<open>strip\<close> does: the string is some white space, the stripped string, and
  some white space again; and a stripped string that is not empty neither begins nor
  ends with white space.
\<close>

lemma rev_split_while:
  "xs = rev (dropWhile P (rev xs)) @ rev (takeWhile P (rev xs))"
proof -
  have "rev (takeWhile P (rev xs) @ dropWhile P (rev xs)) = rev (rev xs)"
    by (simp only: takeWhile_dropWhile_id)
  then show ?thesis
    by (simp only: rev_append rev_rev_ident)
qed

lemma strip_decompose:
  "\<exists>lead trail. s = lead @ strip s @ trail
     \<and> (\<forall>c \<in> set lead. isspace c) \<and> (\<forall>c \<in> set trail. isspace c)"
proof -
  let ?a = "takeWhile isspace s"
  let ?m = "dropWhile isspace s"
  let ?b = "rev (takeWhile isspace (rev ?m))"
  have "?m = strip s @ ?b"
    unfolding strip_def by (rule rev_split_while)
  then have "?a @ ?m = ?a @ strip s @ ?b"
    by (rule arg_cong)
  then have 1: "s = ?a @ strip s @ ?b"
    by (simp only: takeWhile_dropWhile_id)
  have 3: "\<forall>c \<in> set ?a. isspace c"
    by (auto dest: set_takeWhileD)
  have 4: "\<forall>c \<in> set ?b. isspace c"
    by (auto dest: set_takeWhileD)
  from 1 3 4 show ?thesis by (intro exI conjI)
qed

lemma strip_ends:
  assumes "strip s \<noteq> []"
  shows "\<not> isspace (hd (strip s)) \<and> \<not> isspace (last (strip s))"
proof -
  let ?m = "dropWhile isspace s"
  let ?r = "dropWhile isspace (rev ?m)"
  from assms have r: "?r \<noteq> []" by (simp add: strip_def)
  then have "\<not> isspace (hd ?r)" by (rule hd_dropWhile)
  with r have l: "\<not> isspace (last (strip s))"
    by (simp add: strip_def last_rev)
  have m: "?m \<noteq> []"
  proof
    assume e: "?m = []"
    have "?r = []" unfolding e by simp
    with r show False ..
  qed
  then have hm: "\<not> isspace (hd ?m)" by (rule hd_dropWhile)
  have "?m = strip s @ rev (takeWhile isspace (rev ?m))"
    unfolding strip_def by (rule rev_split_while)
  then have "hd ?m = hd (strip s @ rev (takeWhile isspace (rev ?m)))"
    by (rule arg_cong)
  with assms have "hd ?m = hd (strip s)" by simp
  with hm l show ?thesis by simp
qed



text \<open>
  Claim C10. The \<open>except\<close> clause of the file-info line mode names
  \<open>CalledProcessError\<close> alone. When the call of \<open>check_output\<close> for an entry
  that is not a directory raises, the information string is \<open>"unknown"\<close> if the
  exception is a \<open>CalledProcessError\<close>, and every other exception, such as the
  \<open>OSError\<close> of a command that cannot be spawned, leaves the line mode as it is.
\<close>

theorem FileInfoLinemode_except_clause:
  assumes "\<not> is_directory fobj"
    and "check_output w [''file'', ''-Lb'', path fobj] = Inl e"
  shows "infostring FileInfoLinemode p w fobj md
           = (case e of CalledProcessError rc \<Rightarrow> Inr ''unknown'' | _ \<Rightarrow> Inl e)"
  using assms
  by (simp add: FileInfoLinemode_infostring_def split: exn.splits)

theorem FileInfoLinemode_except_clause_witness:
  "\<not> is_directory (file_aged 0)
   \<and> check_output (world_at 0 (Inl OSError)) [''file'', ''-Lb'', path (file_aged 0)]
       = Inl OSError
   \<and> infostring FileInfoLinemode host_C (world_at 0 (Inl OSError)) (file_aged 0) no_metadata
       = Inl OSError"
  using FileInfoLinemode_except_clause
    [of "file_aged 0" "world_at 0 (Inl OSError)" OSError host_C no_metadata]
  by (simp add: file_aged_def world_at_def check_output_def)

subsection \<open>Looking a line mode up\<close>

lemma inj_name: "name a = name b \<Longrightarrow> a = b"
  by (cases a; cases b) simp_all

lemma registered_present:
  "s \<in> set ss \<Longrightarrow> foldl register r ss (name s) = Some s"
proof (induction ss rule: rev_induct)
  case Nil
  then show ?case by simp
next
  case (snoc x xs)
  show ?case
  proof (cases "name x = name s")
    case True
    then have "x = s" by (rule inj_name)
    then show ?thesis by (simp add: register_def)
  next
    case False
    with snoc show ?thesis by (auto simp: register_def)
  qed
qed

lemma unregistered_absent:
  "n \<notin> name ` set ss \<Longrightarrow> foldl register r ss n = r n"
  by (induction ss rule: rev_induct) (auto simp: register_def)

lemma nonexistent_not_a_name: "''nonexistent'' \<notin> name ` set ss"
proof
  assume "''nonexistent'' \<in> name ` set ss"
  then obtain m where "name m = ''nonexistent''" by auto
  then show False by (cases m) simp_all
qed

text \<open>
  Claim C4. In a registry filled by registering the strategies of any list, looking up
  the name of a strategy of the list gives that strategy, and looking up a name that
  no strategy of the list bears fails with \<open>UnknownModeError\<close>. In the registry
  filled at startup every line mode is found under its name, \<open>"nonexistent"\<close> is
  not found, \<open>default_name\<close> is \<open>"filename"\<close>, and looking that name up gives the
  default line mode.
\<close>

theorem registry_lookup:
  "(\<forall>ss s. s \<in> set ss \<longrightarrow> lookup (foldl register Map.empty ss) (name s) = Inr s)
   \<and> (\<forall>ss n. n \<notin> name ` set ss \<longrightarrow>
         lookup (foldl register Map.empty ss) n = Inl UnknownModeError)
   \<and> (\<forall>m. lookup startup_registry (name m) = Inr m)
   \<and> lookup startup_registry ''nonexistent'' = Inl UnknownModeError
   \<and> default_name = ''filename''
   \<and> lookup startup_registry default_name = Inr DefaultLinemode"
proof (intro conjI allI impI)
  fix ss :: "linemode list" and s
  assume "s \<in> set ss"
  then show "lookup (foldl register Map.empty ss) (name s) = Inr s"
    by (simp add: lookup_def registered_present)
next
  fix ss :: "linemode list" and n
  assume "n \<notin> name ` set ss"
  then show "lookup (foldl register Map.empty ss) n = Inl UnknownModeError"
    by (simp add: lookup_def unregistered_absent)
next
  fix m
  have "m \<in> set linemodes"
    by (cases m) (simp_all add: linemodes_def)
  then show "lookup startup_registry (name m) = Inr m"
    by (simp add: lookup_def startup_registry_def registered_present)
next
  show "lookup startup_registry ''nonexistent'' = Inl UnknownModeError"
    by (simp add: lookup_def startup_registry_def unregistered_absent nonexistent_not_a_name)
next
  show "default_name = ''filename''"
    by (simp add: default_name_def DEFAULT_LINEMODE_def)
next
  have "DefaultLinemode \<in> set linemodes"
    by (simp add: linemodes_def)
  then have "lookup startup_registry (name DefaultLinemode) = Inr DefaultLinemode"
    by (simp add: lookup_def startup_registry_def registered_present del: name.simps)
  then show "lookup startup_registry default_name = Inr DefaultLinemode"
    by (simp add: default_name_def DEFAULT_LINEMODE_def)
qed

theorem registry_lookup_witness:
  "MtimeLinemode \<in> set linemodes
   \<and> lookup (foldl register Map.empty linemodes) (name MtimeLinemode) = Inr MtimeLinemode
   \<and> ''nonexistent'' \<notin> name ` set linemodes
   \<and> lookup (foldl register Map.empty linemodes) ''nonexistent'' = Inl UnknownModeError"
proof -
  have a: "MtimeLinemode \<in> set linemodes"
    by (simp add: linemodes_def)
  have b: "''nonexistent'' \<notin> name ` set linemodes"
    by (simp add: linemodes_def)
  note r = registry_lookup
  from r a
  have "lookup (foldl register Map.empty linemodes) (name MtimeLinemode) = Inr MtimeLinemode"
    by (elim conjE allE [of _ linemodes] allE [of _ MtimeLinemode] impE)
  moreover from r b
  have "lookup (foldl register Map.empty linemodes) ''nonexistent'' = Inl UnknownModeError"
    by (elim conjE allE [of _ linemodes] allE [of _ "''nonexistent''"] impE)
  ultimately show ?thesis using a b by (intro conjI)
qed

end
